theory Spec2Isabelle
  imports Complex_Main "HOL-Library.AList"
begin

section \<open>JSON values and the Python operations applied to them\<close>

text \<open>
  \<^verbatim>\<open>Rol.permisos\<close> is a \<^verbatim>\<open>models.JSONField\<close>: the stored value is whatever JSON the
  writer handed over. Python dictionaries keep insertion order, so an object is an
  association list read with \<^const>\<open>map_of\<close> (first binding of a key) and written with
  \<^const>\<open>AList.update\<close> (in place when the key exists, appended otherwise).
\<close>

datatype json =
    JNull
  | JBool bool
  | JInt int
  | JFloat real
  | JStr string
  | JArr "json list"
  | JObj "(string \<times> json) list"

datatype error =
    TypeError
  | AttributeError
  | KeyError
  | ValidationError "(string \<times> string) list"

text \<open>Truth value of a JSON value in a Python condition (\<^verbatim>\<open>if x:\<close>, \<^verbatim>\<open>not x\<close>).\<close>

fun truthy :: "json \<Rightarrow> bool" where
  "truthy JNull = False"
| "truthy (JBool b) = b"
| "truthy (JInt n) = (n \<noteq> 0)"
| "truthy (JFloat x) = (x \<noteq> 0)"
| "truthy (JStr s) = (s \<noteq> [])"
| "truthy (JArr xs) = (xs \<noteq> [])"
| "truthy (JObj d) = (d \<noteq> [])"

text \<open>\<^verbatim>\<open>needle in haystack\<close> for two Python strings.\<close>

fun substring :: "string \<Rightarrow> string \<Rightarrow> bool" where
  "substring m [] = (m = [])"
| "substring m (c # cs) = (take (length m) (c # cs) = m \<or> substring m cs)"

text \<open>
  \<^verbatim>\<open>key in container\<close> with a string key: key membership for a dict, element membership
  for a list, substring test for a string, \<^verbatim>\<open>TypeError\<close> for anything else.
\<close>

fun py_contains :: "json \<Rightarrow> string \<Rightarrow> error + bool" where
  "py_contains (JObj d) k = Inr (k \<in> set (map fst d))"
| "py_contains (JArr xs) k = Inr (JStr k \<in> set xs)"
| "py_contains (JStr s) k = Inr (substring k s)"
| "py_contains JNull k = Inl TypeError"
| "py_contains (JBool b) k = Inl TypeError"
| "py_contains (JInt n) k = Inl TypeError"
| "py_contains (JFloat x) k = Inl TypeError"

text \<open>\<^verbatim>\<open>container[key]\<close> with a string key.\<close>

fun py_getitem :: "json \<Rightarrow> string \<Rightarrow> error + json" where
  "py_getitem (JObj d) k = (case map_of d k of None \<Rightarrow> Inl KeyError | Some v \<Rightarrow> Inr v)"
| "py_getitem (JArr xs) k = Inl TypeError"
| "py_getitem (JStr s) k = Inl TypeError"
| "py_getitem JNull k = Inl TypeError"
| "py_getitem (JBool b) k = Inl TypeError"
| "py_getitem (JInt n) k = Inl TypeError"
| "py_getitem (JFloat x) k = Inl TypeError"

text \<open>\<^verbatim>\<open>container[key] = value\<close> with a string key.\<close>

fun py_setitem :: "json \<Rightarrow> string \<Rightarrow> json \<Rightarrow> error + json" where
  "py_setitem (JObj d) k v = Inr (JObj (AList.update k v d))"
| "py_setitem (JArr xs) k v = Inl TypeError"
| "py_setitem (JStr s) k v = Inl TypeError"
| "py_setitem JNull k v = Inl TypeError"
| "py_setitem (JBool b) k v = Inl TypeError"
| "py_setitem (JInt n) k v = Inl TypeError"
| "py_setitem (JFloat x) k v = Inl TypeError"

text \<open>\<^verbatim>\<open>obj.get(key, default)\<close>: only a dict has the method.\<close>

fun py_get :: "json \<Rightarrow> string \<Rightarrow> json \<Rightarrow> error + json" where
  "py_get (JObj d) k dflt = Inr (case map_of d k of None \<Rightarrow> dflt | Some v \<Rightarrow> v)"
| "py_get (JArr xs) k dflt = Inl AttributeError"
| "py_get (JStr s) k dflt = Inl AttributeError"
| "py_get JNull k dflt = Inl AttributeError"
| "py_get (JBool b) k dflt = Inl AttributeError"
| "py_get (JInt n) k dflt = Inl AttributeError"
| "py_get (JFloat x) k dflt = Inl AttributeError"

text \<open>\<^verbatim>\<open>obj.items()\<close>: only a dict has the method.\<close>

fun py_items :: "json \<Rightarrow> error + (string \<times> json) list" where
  "py_items (JObj d) = Inr d"
| "py_items (JArr xs) = Inl AttributeError"
| "py_items (JStr s) = Inl AttributeError"
| "py_items JNull = Inl AttributeError"
| "py_items (JBool b) = Inl AttributeError"
| "py_items (JInt n) = Inl AttributeError"
| "py_items (JFloat x) = Inl AttributeError"

section \<open>The data model (models.py)\<close>

text \<open>
  \<^verbatim>\<open>class Rol\<close>, \<^verbatim>\<open>class Usuario\<close> (the two flags the permission code reads),
  \<^verbatim>\<open>class UsuarioRol\<close> (foreign keys as ids) and \<^verbatim>\<open>class BitacoraAuditoria\<close>
  (the columns the role views write). Timestamps are left out: no modelled function reads
  them.
\<close>

record rol =
  rol_id :: nat
  nombre :: string
  descripcion :: "string option"
  permisos :: json
  es_sistema :: bool

record usuario =
  usuario_id :: nat
  is_staff :: bool
  is_superuser :: bool

record usuario_rol =
  ur_id :: nat
  ur_usuario :: nat
  ur_rol :: nat

record bitacora_auditoria =
  accion_bitacora :: string
  tabla_afectada :: string
  registro_id :: nat

record db =
  usuarios :: "usuario list"
  roles :: "rol list"
  usuario_roles :: "usuario_rol list"
  bitacora :: "bitacora_auditoria list"

section \<open>The permission matrix of a role (models.py, class Rol)\<close>

definition permisos_requeridos :: "string list" where
  "permisos_requeridos =
     [''usuarios'', ''socios'', ''parcelas'', ''cultivos'',
      ''ciclos_cultivo'', ''cosechas'', ''tratamientos'',
      ''analisis_suelo'', ''transferencias'', ''reportes'',
      ''auditoria'', ''configuracion'']"

text \<open>The literal stored for a module that is missing.\<close>

definition permisos_vacios :: json where
  "permisos_vacios =
     JObj [(''ver'', JBool False), (''crear'', JBool False), (''editar'', JBool False),
           (''eliminar'', JBool False), (''aprobar'', JBool False)]"

text \<open>
  The loop of \<^verbatim>\<open>Rol._validar_estructura_permisos\<close>:
  \<^verbatim>\<open>for permiso in permisos_requeridos:
      if permiso not in self.permisos:
          self.permisos[permiso] = {'ver': False, ...}\<close>
  The method mutates \<^verbatim>\<open>self.permisos\<close>; the model returns the new value.
\<close>

fun validar_estructura_loop :: "string list \<Rightarrow> json \<Rightarrow> error + json" where
  "validar_estructura_loop [] p = Inr p"
| "validar_estructura_loop (permiso # resto) p =
     (case py_contains p permiso of
        Inl e \<Rightarrow> Inl e
      | Inr presente \<Rightarrow>
          if \<not> presente
          then (case py_setitem p permiso permisos_vacios of
                  Inl e \<Rightarrow> Inl e
                | Inr p' \<Rightarrow> validar_estructura_loop resto p')
          else validar_estructura_loop resto p)"

definition validar_estructura_permisos :: "json \<Rightarrow> error + json" where
  "validar_estructura_permisos p = validar_estructura_loop permisos_requeridos p"

text \<open>
  \<^verbatim>\<open>Rol.tiene_permiso(modulo, accion)\<close>:
  \<^verbatim>\<open>if not self.permisos or modulo not in self.permisos:
      return False
  permisos_modulo = self.permisos[modulo]
  return permisos_modulo.get(accion, False)\<close>
  The value returned is the stored one, whatever its JSON type.
\<close>

definition tiene_permiso :: "rol \<Rightarrow> string \<Rightarrow> string \<Rightarrow> error + json" where
  "tiene_permiso r modul accion =
     (if \<not> truthy (permisos r) then Inr (JBool False)
      else (case py_contains (permisos r) modul of
              Inl e \<Rightarrow> Inl e
            | Inr presente \<Rightarrow>
                if \<not> presente then Inr (JBool False)
                else (case py_getitem (permisos r) modul of
                        Inl e \<Rightarrow> Inl e
                      | Inr permisos_modulo \<Rightarrow> py_get permisos_modulo accion (JBool False))))"

section \<open>The two serializer classes (serializers.py)\<close>

text \<open>
  \<^verbatim>\<open>serializers.py\<close> defines \<^verbatim>\<open>class RolSerializer\<close> twice. The first definition
  (line 12) has the hooks \<^verbatim>\<open>validate_permisos\<close> and \<^verbatim>\<open>validate\<close>; the second
  (line 554, \<^verbatim>\<open>fields = '__all__'\<close>, no hook) rebinds the name, so it is the class that
  \<^verbatim>\<open>views.py\<close> imports and \<^verbatim>\<open>RolViewSet\<close> uses. The hooks of the first class are
  modelled as the methods they are; no request reaches them.
\<close>

definition modulos_requeridos :: "string list" where
  "modulos_requeridos =
     [''usuarios'', ''socios'', ''parcelas'', ''cultivos'',
      ''ciclos_cultivo'', ''cosechas'', ''tratamientos'',
      ''analisis_suelo'', ''transferencias'', ''reportes'',
      ''auditoria'', ''configuracion'']"

text \<open>
  \<^verbatim>\<open>RolSerializer.validate_permisos(value)\<close>: the only test on the value is
  \<^verbatim>\<open>isinstance(value, dict)\<close>; then the same gap-filling loop over the module list runs
  and the value is returned.
\<close>

definition permisos_no_objeto :: "(string \<times> string) list" where
  "permisos_no_objeto = [(''permisos'', ''Los permisos deben ser un objeto JSON valido'')]"

definition validate_permisos :: "json \<Rightarrow> error + json" where
  "validate_permisos v =
     (case v of
        JObj d \<Rightarrow> validar_estructura_loop modulos_requeridos (JObj d)
      | _ \<Rightarrow> Inl (ValidationError permisos_no_objeto))"

text \<open>
  The relation \<^verbatim>\<open>nombre__iexact\<close> of the ORM. On the configured PostgreSQL backend it is
  \<^verbatim>\<open>UPPER(column) = UPPER(value)\<close>. \<^verbatim>\<open>UPPER\<close> is the database's function and what it
  does to a letter outside ASCII depends on the database's locale, so it is a parameter
  of the relation and of every function that uses it.
\<close>

definition iexact :: "(string \<Rightarrow> string) \<Rightarrow> string \<Rightarrow> string \<Rightarrow> bool" where
  "iexact upper a b = (upper a = upper b)"

text \<open>What \<^verbatim>\<open>UPPER\<close> does to ASCII text; the examples use names of ASCII letters.\<close>

definition upper_char :: "char \<Rightarrow> char" where
  "upper_char c =
     (case map_of (zip ''abcdefghijklmnopqrstuvwxyz'' ''ABCDEFGHIJKLMNOPQRSTUVWXYZ'') c of
        None \<Rightarrow> c
      | Some mayuscula \<Rightarrow> mayuscula)"

definition upper_ascii :: "string \<Rightarrow> string" where
  "upper_ascii s = map upper_char s"

text \<open>
  A Python string is held as its UTF-8 bytes. \<open>puntos\<close> cuts it into code points (the
  first byte of a sequence tells its length), so that \<^verbatim>\<open>len\<close>, \<^verbatim>\<open>strip\<close> and a
  character class count and test characters, as Python and a \<^verbatim>\<open>varchar\<close> column do.
\<close>

definition ancho :: "char \<Rightarrow> nat" where
  "ancho c =
     (let n = (of_char c :: nat)
      in if n < 192 then 1 else if n < 224 then 2 else if n < 240 then 3 else 4)"

fun puntos :: "string \<Rightarrow> string list" where
  "puntos [] = []"
| "puntos (c # cs) = (c # take (ancho c - 1) cs) # puntos (drop (ancho c - 1) cs)"

definition py_len :: "string \<Rightarrow> nat" where
  "py_len s = length (puntos s)"

text \<open>
  The characters for which \<^verbatim>\<open>str.isspace\<close> holds, which are the ones \<^verbatim>\<open>str.strip\<close>
  removes and the ones \<^verbatim>\<open>\s\<close> matches in a pattern over \<^verbatim>\<open>str\<close>: U+0009 to U+000D,
  U+001C to U+0020, U+0085, U+00A0, U+1680, U+2000 to U+200A, U+2028, U+2029, U+202F,
  U+205F and U+3000.
\<close>

definition espacios :: "string list" where
  "espacios =
     [[CHR 0x09], [CHR 0x0A], [CHR 0x0B], [CHR 0x0C], [CHR 0x0D],
      [CHR 0x1C], [CHR 0x1D], [CHR 0x1E], [CHR 0x1F], [CHR 0x20],
      [CHR 0xC2, CHR 0x85], [CHR 0xC2, CHR 0xA0], [CHR 0xE1, CHR 0x9A, CHR 0x80],
      [CHR 0xE2, CHR 0x80, CHR 0x80], [CHR 0xE2, CHR 0x80, CHR 0x81],
      [CHR 0xE2, CHR 0x80, CHR 0x82], [CHR 0xE2, CHR 0x80, CHR 0x83],
      [CHR 0xE2, CHR 0x80, CHR 0x84], [CHR 0xE2, CHR 0x80, CHR 0x85],
      [CHR 0xE2, CHR 0x80, CHR 0x86], [CHR 0xE2, CHR 0x80, CHR 0x87],
      [CHR 0xE2, CHR 0x80, CHR 0x88], [CHR 0xE2, CHR 0x80, CHR 0x89],
      [CHR 0xE2, CHR 0x80, CHR 0x8A], [CHR 0xE2, CHR 0x80, CHR 0xA8],
      [CHR 0xE2, CHR 0x80, CHR 0xA9], [CHR 0xE2, CHR 0x80, CHR 0xAF],
      [CHR 0xE2, CHR 0x81, CHR 0x9F], [CHR 0xE3, CHR 0x80, CHR 0x80]]"

definition py_strip :: "string \<Rightarrow> string" where
  "py_strip s =
     concat (rev (dropWhile (\<lambda>p. p \<in> set espacios)
                    (rev (dropWhile (\<lambda>p. p \<in> set espacios) (puntos s)))))"

text \<open>
  The field dictionary of a role, as a request sends it and as a serializer validates it:
  a key is present or not. \<open>d_otros\<close> lists the other writable keys that are present
  (the two timestamps), whose values no modelled function reads. The name is a JSON
  string.
\<close>

record rol_data =
  d_nombre :: "string option"
  d_descripcion :: "string option option"
  d_permisos :: "json option"
  d_es_sistema :: "bool option"
  d_otros :: "string list"

text \<open>
  \<^verbatim>\<open>RolSerializer.validate(data)\<close> of the first class, with \<^verbatim>\<open>self.instance\<close> as an
  argument (\<^verbatim>\<open>None\<close> on create). First the name test
  \<^verbatim>\<open>if nombre and Rol.objects.filter(nombre__iexact=nombre)
         .exclude(id=instance.id if instance else None).exists()\<close>,
  then the restriction of a system role to the fields \<^verbatim>\<open>descripcion\<close> and
  \<^verbatim>\<open>permisos\<close>.
\<close>

definition nombre_duplicado :: "(string \<times> string) list" where
  "nombre_duplicado = [(''nombre'', ''Ya existe un rol con este nombre'')]"

definition campo_protegido :: "string \<Rightarrow> string \<times> string" where
  "campo_protegido field =
     (field, ''No se puede modificar el campo '' @ field @ '' de un rol del sistema'')"

definition validate ::
  "(string \<Rightarrow> string) \<Rightarrow> db \<Rightarrow> rol option \<Rightarrow> rol_data \<Rightarrow> error + rol_data" where
  "validate upper d instance data =
     (let nombre_nuevo = d_nombre data;
          campos_invalidos =
            (case nombre_nuevo of None \<Rightarrow> [] | Some n \<Rightarrow> [''nombre'']) @
            (case d_es_sistema data of None \<Rightarrow> [] | Some b \<Rightarrow> [''es_sistema'']) @
            d_otros data
      in
      if (case nombre_nuevo of None \<Rightarrow> False | Some n \<Rightarrow> n \<noteq> [] \<and>
            (\<exists>r \<in> set (roles d). iexact upper (nombre r) n \<and>
               (case instance of None \<Rightarrow> True | Some i \<Rightarrow> rol_id r \<noteq> rol_id i)))
      then Inl (ValidationError nombre_duplicado)
      else if (case instance of None \<Rightarrow> False | Some i \<Rightarrow> es_sistema i) \<and>
              campos_invalidos \<noteq> []
      then Inl (ValidationError (map campo_protegido campos_invalidos))
      else Inr data)"

section \<open>Role management (views.py, class RolViewSet and the function views)\<close>

text \<open>
  A view returns an HTTP response (status and the text of its \<^verbatim>\<open>error\<close> or
  \<^verbatim>\<open>mensaje\<close> entry) or lets an exception escape; either way the database it leaves
  behind is part of the result.
\<close>

datatype response = Response nat string

datatype excepcion =
    Raised error
  | Http404
  | MultipleObjectsReturned
  | DataError
  | IntegrityError

type_synonym 'a resultado = "(excepcion + 'a) \<times> db"

text \<open>\<^verbatim>\<open>Model.objects.get(...)\<close> on the rows that match the lookup.\<close>

datatype 'a fila = DoesNotExist | Varias | Fila 'a

fun objects_get :: "'a list \<Rightarrow> 'a fila" where
  "objects_get [] = DoesNotExist"
| "objects_get [x] = Fila x"
| "objects_get (x # y # zs) = Varias"

text \<open>
  The primary key given to a new row: the model takes the successor of the largest key in
  the table, one of the values a database sequence can hand out.
\<close>

definition nuevo_id :: "nat list \<Rightarrow> nat" where
  "nuevo_id ids = Suc (fold max ids 0)"

text \<open>
  \<^verbatim>\<open>RolViewSet.get_queryset\<close> (system roles are hidden from non-staff requesters) and the
  framework's \<^verbatim>\<open>get_object\<close>, which looks the primary key up in that queryset and raises
  \<^verbatim>\<open>Http404\<close> when nothing matches.
\<close>

definition get_queryset :: "db \<Rightarrow> usuario \<Rightarrow> rol list" where
  "get_queryset d request_user =
     (if \<not> is_staff request_user then filter (\<lambda>r. \<not> es_sistema r) (roles d) else roles d)"

definition get_object :: "db \<Rightarrow> usuario \<Rightarrow> nat \<Rightarrow> rol option" where
  "get_object d request_user pk = find (\<lambda>r. rol_id r = pk) (get_queryset d request_user)"

text \<open>
  \<^verbatim>\<open>instance.delete()\<close> on a role: the row goes, and so does every
  \<^verbatim>\<open>UsuarioRol\<close> row that points at it (\<^verbatim>\<open>on_delete=models.CASCADE\<close>).
\<close>

definition delete_rol :: "db \<Rightarrow> rol \<Rightarrow> db" where
  "delete_rol d instance =
     d\<lparr>roles := filter (\<lambda>r. rol_id r \<noteq> rol_id instance) (roles d),
       usuario_roles := filter (\<lambda>ur. ur_rol ur \<noteq> rol_id instance) (usuario_roles d)\<rparr>"

definition registrar :: "db \<Rightarrow> string \<Rightarrow> string \<Rightarrow> nat \<Rightarrow> db" where
  "registrar d acc tabla reg =
     d\<lparr>bitacora := bitacora d @
          [\<lparr>accion_bitacora = acc, tabla_afectada = tabla, registro_id = reg\<rparr>]\<rparr>"

text \<open>
  \<^verbatim>\<open>RolViewSet.perform_destroy(instance)\<close>:
  \<^verbatim>\<open>if instance.es_sistema:
      raise serializers.ValidationError('No se puede eliminar un rol del sistema')
  BitacoraAuditoria.objects.create(...)
  instance.delete()\<close>
\<close>

definition rol_protegido :: "(string \<times> string) list" where
  "rol_protegido = [(''detail'', ''No se puede eliminar un rol del sistema'')]"

definition perform_destroy :: "db \<Rightarrow> rol \<Rightarrow> unit resultado" where
  "perform_destroy d instance =
     (if es_sistema instance then (Inl (Raised (ValidationError rol_protegido)), d)
      else (Inr (), delete_rol (registrar d ''ELIMINAR'' ''rol'' (rol_id instance)) instance))"

text \<open>
  \<^verbatim>\<open>RolViewSet.quitar_usuario\<close>. The guard counts the other assignments of the user
  whose role is a system role (\<^verbatim>\<open>rol__es_sistema=True\<close>). A \<^verbatim>\<open>usuario_id\<close> that is
  missing or zero is falsy.
\<close>

definition quitar_usuario :: "db \<Rightarrow> usuario \<Rightarrow> nat \<Rightarrow> nat option \<Rightarrow> response resultado" where
  "quitar_usuario d request_user pk uid_opt =
     (case get_object d request_user pk of
        None \<Rightarrow> (Inl Http404, d)
      | Some r \<Rightarrow>
         (case uid_opt of
            None \<Rightarrow> (Inr (Response 400 ''usuario_id es requerido''), d)
          | Some uid \<Rightarrow>
             if uid = 0 then (Inr (Response 400 ''usuario_id es requerido''), d)
             else (case objects_get (filter (\<lambda>u. usuario_id u = uid) (usuarios d)) of
                DoesNotExist \<Rightarrow> (Inr (Response 404 ''Usuario no encontrado''), d)
              | Varias \<Rightarrow> (Inl MultipleObjectsReturned, d)
              | Fila u \<Rightarrow>
                 (case objects_get (filter (\<lambda>ur. ur_usuario ur = usuario_id u \<and>
                                                 ur_rol ur = rol_id r) (usuario_roles d)) of
                    DoesNotExist \<Rightarrow>
                      (Inr (Response 404 ''El usuario no tiene asignado este rol''), d)
                  | Varias \<Rightarrow> (Inl MultipleObjectsReturned, d)
                  | Fila asignacion \<Rightarrow>
                     if es_sistema r \<and>
                        length (filter (\<lambda>ur. ur_usuario ur = usuario_id u \<and>
                                  (\<exists>r' \<in> set (roles d). rol_id r' = ur_rol ur \<and> es_sistema r') \<and>
                                  ur_id ur \<noteq> ur_id asignacion) (usuario_roles d)) = 0
                     then (Inr (Response 400
                            ''No se puede quitar el ultimo rol del sistema del usuario''), d)
                     else (Inr (Response 200 ''Rol removido exitosamente''),
                           registrar
                             (d\<lparr>usuario_roles :=
                                  filter (\<lambda>ur. ur_id ur \<noteq> ur_id asignacion) (usuario_roles d)\<rparr>)
                             ''ELIMINAR'' ''usuario_rol'' (ur_id asignacion))))))"

text \<open>
  The function view \<^verbatim>\<open>quitar_rol_usuario\<close>. Its guard counts every other assignment of
  the user, whatever the role:
  \<^verbatim>\<open>UsuarioRol.objects.filter(usuario=usuario).exclude(id=usuario_rol.id).count()\<close>.
\<close>

definition quitar_rol_usuario ::
  "db \<Rightarrow> usuario \<Rightarrow> nat option \<Rightarrow> nat option \<Rightarrow> response resultado" where
  "quitar_rol_usuario d request_user uid_opt rid_opt =
     (if \<not> is_staff request_user then (Inr (Response 403 ''Permisos insuficientes''), d)
      else (case (uid_opt, rid_opt) of
        (Some uid, Some rid) \<Rightarrow>
         if uid = 0 \<or> rid = 0
         then (Inr (Response 400 ''usuario_id y rol_id son requeridos''), d)
         else (case objects_get (filter (\<lambda>u. usuario_id u = uid) (usuarios d)) of
            DoesNotExist \<Rightarrow> (Inr (Response 404 ''Usuario no encontrado''), d)
          | Varias \<Rightarrow> (Inl MultipleObjectsReturned, d)
          | Fila u \<Rightarrow>
             (case objects_get (filter (\<lambda>r. rol_id r = rid) (roles d)) of
                DoesNotExist \<Rightarrow> (Inr (Response 404 ''Rol no encontrado''), d)
              | Varias \<Rightarrow> (Inl MultipleObjectsReturned, d)
              | Fila r \<Rightarrow>
                 (case objects_get (filter (\<lambda>ur. ur_usuario ur = usuario_id u \<and>
                                                 ur_rol ur = rol_id r) (usuario_roles d)) of
                    DoesNotExist \<Rightarrow>
                      (Inr (Response 404 ''El usuario no tiene asignado este rol''), d)
                  | Varias \<Rightarrow> (Inl MultipleObjectsReturned, d)
                  | Fila asignacion \<Rightarrow>
                     if es_sistema r \<and>
                        length (filter (\<lambda>ur. ur_usuario ur = usuario_id u \<and>
                                  ur_id ur \<noteq> ur_id asignacion) (usuario_roles d)) = 0
                     then (Inr (Response 400 ''No se puede quitar el ultimo rol del usuario''), d)
                     else (Inr (Response 200 ''Rol removido exitosamente''),
                           registrar
                             (d\<lparr>usuario_roles :=
                                  filter (\<lambda>ur. ur_id ur \<noteq> ur_id asignacion) (usuario_roles d)\<rparr>)
                             ''ELIMINAR'' ''usuario_rol'' (ur_id asignacion)))))
      | _ \<Rightarrow> (Inr (Response 400 ''usuario_id y rol_id son requeridos''), d)))"

text \<open>
  \<^verbatim>\<open>Rol.objects.create(...)\<close>: no model validation runs (\<^verbatim>\<open>Rol\<close> does not override
  \<^verbatim>\<open>save\<close>), so only the table's constraints can refuse the row: the column is
  \<^verbatim>\<open>varchar(50)\<close> and \<^verbatim>\<open>unique\<close>.
\<close>

definition objects_create ::
  "db \<Rightarrow> string \<Rightarrow> string option \<Rightarrow> json \<Rightarrow> bool \<Rightarrow> excepcion + (rol \<times> db)" where
  "objects_create d n descr perms sistema =
     (if 50 < py_len n then Inl DataError
      else if \<exists>r \<in> set (roles d). nombre r = n then Inl IntegrityError
      else (let nuevo = \<lparr>rol_id = nuevo_id (map rol_id (roles d)), nombre = n,
                          descripcion = descr, permisos = perms, es_sistema = sistema\<rparr>
            in Inr (nuevo, d\<lparr>roles := roles d @ [nuevo]\<rparr>)))"

text \<open>\<^verbatim>\<open>value.copy()\<close>: dicts and lists have the method.\<close>

fun py_copy :: "json \<Rightarrow> error + json" where
  "py_copy (JObj d) = Inr (JObj d)"
| "py_copy (JArr xs) = Inr (JArr xs)"
| "py_copy (JStr s) = Inl AttributeError"
| "py_copy JNull = Inl AttributeError"
| "py_copy (JBool b) = Inl AttributeError"
| "py_copy (JInt n) = Inl AttributeError"
| "py_copy (JFloat x) = Inl AttributeError"

text \<open>
  \<^verbatim>\<open>RolViewSet.duplicar\<close>: \<^verbatim>\<open>nuevo_nombre\<close> missing or empty is refused, then
  \<^verbatim>\<open>if Rol.objects.filter(nombre__iexact=nuevo_nombre).exists()\<close> refuses a taken name,
  then the copy is created with \<^verbatim>\<open>es_sistema=False\<close>.
\<close>

definition duplicar ::
  "(string \<Rightarrow> string) \<Rightarrow> db \<Rightarrow> usuario \<Rightarrow> nat \<Rightarrow> string option \<Rightarrow> string option
     \<Rightarrow> response resultado" where
  "duplicar upper d request_user pk nuevo_nombre descr =
     (case get_object d request_user pk of
        None \<Rightarrow> (Inl Http404, d)
      | Some rol_original \<Rightarrow>
         (case nuevo_nombre of
            None \<Rightarrow> (Inr (Response 400 ''nuevo_nombre es requerido''), d)
          | Some n \<Rightarrow>
             if n = [] then (Inr (Response 400 ''nuevo_nombre es requerido''), d)
             else if \<exists>r \<in> set (roles d). iexact upper (nombre r) n
             then (Inr (Response 400 ''Ya existe un rol con este nombre''), d)
             else (case py_copy (permisos rol_original) of
                Inl e \<Rightarrow> (Inl (Raised e), d)
              | Inr perms \<Rightarrow>
                 (case objects_create d n
                         (Some (case descr of None \<Rightarrow> ''Copia de '' @ nombre rol_original
                                | Some x \<Rightarrow> x))
                         perms False of
                    Inl ex \<Rightarrow> (Inl ex, d)
                  | Inr (nuevo_rol, d') \<Rightarrow>
                      (Inr (Response 201 (nombre nuevo_rol)),
                       registrar d' ''CREAR'' ''rol'' (rol_id nuevo_rol))))))"

text \<open>
  The function view \<^verbatim>\<open>crear_rol_personalizado\<close>: staff only; the name is required and
  tested with \<^verbatim>\<open>nombre__iexact\<close>; \<^verbatim>\<open>permisos\<close> (default \<^verbatim>\<open>{}\<close>) is stored as
  received, without passing through a serializer.
\<close>

definition crear_rol_personalizado ::
  "(string \<Rightarrow> string) \<Rightarrow> db \<Rightarrow> usuario \<Rightarrow> string option \<Rightarrow> string option \<Rightarrow> json option
     \<Rightarrow> response resultado" where
  "crear_rol_personalizado upper d request_user nombre_opt descr perms =
     (if \<not> is_staff request_user then (Inr (Response 403 ''Permisos insuficientes''), d)
      else (case nombre_opt of
         None \<Rightarrow> (Inr (Response 400 ''El nombre del rol es requerido''), d)
       | Some n \<Rightarrow>
          if n = [] then (Inr (Response 400 ''El nombre del rol es requerido''), d)
          else if \<exists>r \<in> set (roles d). iexact upper (nombre r) n
          then (Inr (Response 400 ''Ya existe un rol con este nombre''), d)
          else (case objects_create d n
                       (Some (case descr of None \<Rightarrow> [] | Some x \<Rightarrow> x))
                       (case perms of None \<Rightarrow> JObj [] | Some v \<Rightarrow> v) False of
                  Inl ex \<Rightarrow> (Inl ex, d)
                | Inr (nuevo_rol, d') \<Rightarrow>
                    (Inr (Response 201 ''Rol personalizado creado exitosamente''),
                     registrar d' ''CREAR'' ''rol'' (rol_id nuevo_rol)))))"

text \<open>
  Creating and updating a role through \<^verbatim>\<open>RolViewSet\<close>, whose serializer is the second
  \<^verbatim>\<open>RolSerializer\<close>. That class declares nothing but \<^verbatim>\<open>fields = '__all__'\<close>, so what
  it checks is what the framework derives from the field declarations of \<^verbatim>\<open>class Rol\<close>
  in \<^verbatim>\<open>models.py\<close>:
  \<^item> \<^verbatim>\<open>nombre\<close>: required unless the update is partial; surrounding whitespace is
    stripped; not blank; \<^verbatim>\<open>max_length=50\<close>; the pattern
    \<^verbatim>\<open>^[a-zA-Z0-9_\-\s]+$\<close>; \<^verbatim>\<open>unique=True\<close>, an exact comparison that leaves out the
    row being updated;
  \<^item> \<^verbatim>\<open>descripcion\<close>: optional, may be null or blank, stripped;
  \<^item> \<^verbatim>\<open>permisos\<close>: optional, any JSON value except null;
  \<^item> \<^verbatim>\<open>es_sistema\<close>: optional and writable.
  For a rejected field the model reports the first check that fails.
\<close>

definition letras_permitidas :: string where
  "letras_permitidas =
     ''abcdefghijklmnopqrstuvwxyzABCDEFGHIJKLMNOPQRSTUVWXYZ0123456789_-''"

definition nombre_regex :: "string \<Rightarrow> bool" where
  "nombre_regex s =
     (s \<noteq> [] \<and>
      list_all (\<lambda>p. p \<in> set espacios \<or>
                    (case p of [c] \<Rightarrow> c \<in> set letras_permitidas | _ \<Rightarrow> False))
               (puntos s))"

definition validar_nombre :: "db \<Rightarrow> rol option \<Rightarrow> string \<Rightarrow> (string \<times> string) list" where
  "validar_nombre d instance valor =
     (let n = py_strip valor in
      if n = [] then [(''nombre'', ''This field may not be blank.'')]
      else if 50 < py_len n
      then [(''nombre'', ''Ensure this field has no more than 50 characters.'')]
      else if \<not> nombre_regex n
      then [(''nombre'', ''Nombre de rol solo puede contener letras, numeros, espacios, guiones y guiones bajos'')]
      else if \<exists>r \<in> set (roles d). nombre r = n \<and>
                (case instance of None \<Rightarrow> True | Some i \<Rightarrow> rol_id r \<noteq> rol_id i)
      then [(''nombre'', ''rol with this nombre already exists.'')]
      else [])"

definition validar_campos ::
  "db \<Rightarrow> rol option \<Rightarrow> bool \<Rightarrow> rol_data \<Rightarrow> (string \<times> string) list" where
  "validar_campos d instance partial data =
     (case d_nombre data of
        None \<Rightarrow> if partial then [] else [(''nombre'', ''This field is required.'')]
      | Some valor \<Rightarrow> validar_nombre d instance valor) @
     (case d_permisos data of
        Some JNull \<Rightarrow> [(''permisos'', ''This field may not be null.'')]
      | _ \<Rightarrow> [])"

text \<open>The validated data: the two text fields stripped, the rest as received.\<close>

definition validated_data :: "rol_data \<Rightarrow> rol_data" where
  "validated_data data =
     data\<lparr>d_nombre := map_option py_strip (d_nombre data),
          d_descripcion := map_option (map_option py_strip) (d_descripcion data)\<rparr>"

text \<open>
  \<^verbatim>\<open>RolViewSet.perform_create\<close>: \<^verbatim>\<open>serializer.save()\<close> inserts the row from the
  validated data, with the model's defaults for absent keys (\<^verbatim>\<open>descripcion\<close> null,
  \<^verbatim>\<open>permisos\<close> \<^verbatim>\<open>{}\<close>, \<^verbatim>\<open>es_sistema\<close> false); then the audit entry is written.
\<close>

definition perform_create :: "db \<Rightarrow> rol_data \<Rightarrow> response resultado" where
  "perform_create d validated =
     (case objects_create d
             (case d_nombre validated of None \<Rightarrow> [] | Some n \<Rightarrow> n)
             (case d_descripcion validated of None \<Rightarrow> None | Some x \<Rightarrow> x)
             (case d_permisos validated of None \<Rightarrow> JObj [] | Some v \<Rightarrow> v)
             (case d_es_sistema validated of None \<Rightarrow> False | Some b \<Rightarrow> b) of
        Inl ex \<Rightarrow> (Inl ex, d)
      | Inr (instance, d') \<Rightarrow>
          (Inr (Response 201 (nombre instance)),
           registrar d' ''CREAR'' ''rol'' (rol_id instance)))"

text \<open>
  The framework's \<^verbatim>\<open>create\<close> for \<^verbatim>\<open>RolViewSet\<close> (POST on the role list):
  \<^verbatim>\<open>serializer.is_valid(raise_exception=True)\<close>, then \<^verbatim>\<open>perform_create\<close>.
\<close>

definition create :: "db \<Rightarrow> rol_data \<Rightarrow> response resultado" where
  "create d data =
     (case validar_campos d None False data of
        [] \<Rightarrow> perform_create d (validated_data data)
      | e # es \<Rightarrow> (Inl (Raised (ValidationError (e # es))), d))"

text \<open>
  \<^verbatim>\<open>RolViewSet.perform_update\<close>: \<^verbatim>\<open>serializer.save()\<close> assigns the validated keys to
  the instance and saves it; then the audit entry is written.
\<close>

definition perform_update :: "db \<Rightarrow> rol \<Rightarrow> rol_data \<Rightarrow> response resultado" where
  "perform_update d instance validated =
     (let actualizado =
            instance\<lparr>nombre := (case d_nombre validated of None \<Rightarrow> nombre instance | Some n \<Rightarrow> n),
                     descripcion := (case d_descripcion validated of
                                       None \<Rightarrow> descripcion instance | Some x \<Rightarrow> x),
                     permisos := (case d_permisos validated of
                                    None \<Rightarrow> permisos instance | Some v \<Rightarrow> v),
                     es_sistema := (case d_es_sistema validated of
                                      None \<Rightarrow> es_sistema instance | Some b \<Rightarrow> b)\<rparr>
      in (Inr (Response 200 (nombre actualizado)),
          registrar
            (d\<lparr>roles := map (\<lambda>r. if rol_id r = rol_id instance then actualizado else r)
                              (roles d)\<rparr>)
            ''ACTUALIZAR'' ''rol'' (rol_id instance)))"

text \<open>
  The framework's \<^verbatim>\<open>update\<close> for \<^verbatim>\<open>RolViewSet\<close> (PUT, or PATCH when \<open>partial\<close>):
  \<^verbatim>\<open>get_object\<close>, \<^verbatim>\<open>serializer.is_valid(raise_exception=True)\<close>, then
  \<^verbatim>\<open>perform_update\<close>.
\<close>

definition update :: "db \<Rightarrow> usuario \<Rightarrow> nat \<Rightarrow> bool \<Rightarrow> rol_data \<Rightarrow> response resultado" where
  "update d request_user pk partial data =
     (case get_object d request_user pk of
        None \<Rightarrow> (Inl Http404, d)
      | Some instance \<Rightarrow>
         (case validar_campos d (Some instance) partial data of
            [] \<Rightarrow> perform_update d instance (validated_data data)
          | e # es \<Rightarrow> (Inl (Raised (ValidationError (e # es))), d)))"

section \<open>The authorization check and the consolidated report (views.py)\<close>

text \<open>
  \<^verbatim>\<open>UsuarioRol.objects.filter(usuario=usuario).select_related('rol')\<close>: the roles reached
  through the user's assignment rows, in row order.
\<close>

definition roles_usuario :: "db \<Rightarrow> usuario \<Rightarrow> rol list" where
  "roles_usuario d u =
     concat (map (\<lambda>ur. filter (\<lambda>r. rol_id r = ur_rol ur) (roles d))
                 (filter (\<lambda>ur. ur_usuario ur = usuario_id u) (usuario_roles d)))"

text \<open>
  The decision block of the view \<^verbatim>\<open>validar_permiso_usuario\<close>, entered once the request
  parameters have been resolved to a user, a module name and an action name:
  \<^verbatim>\<open>tiene_permiso = False
  if usuario.is_staff or usuario.is_superuser:
      tiene_permiso = True
  else:
      for usuario_rol in roles_usuario:
          if usuario_rol.rol.tiene_permiso(modulo, accion):
              tiene_permiso = True
              break\<close>
\<close>

fun validar_permiso_loop :: "rol list \<Rightarrow> string \<Rightarrow> string \<Rightarrow> error + bool" where
  "validar_permiso_loop [] modul accion = Inr False"
| "validar_permiso_loop (r # rs) modul accion =
     (case tiene_permiso r modul accion of
        Inl e \<Rightarrow> Inl e
      | Inr v \<Rightarrow> if truthy v then Inr True else validar_permiso_loop rs modul accion)"

definition validar_permiso_usuario :: "db \<Rightarrow> usuario \<Rightarrow> string \<Rightarrow> string \<Rightarrow> error + bool" where
  "validar_permiso_usuario d u modul accion =
     (if is_staff u \<or> is_superuser u then Inr True
      else validar_permiso_loop (roles_usuario d u) modul accion)"

text \<open>
  The consolidation block of the view \<^verbatim>\<open>permisos_usuario\<close>: for each module of its list
  a fresh all-false dictionary, replaced by the all-true one for a staff or superuser
  account, and otherwise updated from every role:
  \<^verbatim>\<open>if modulo in rol_permisos:
      for accion, permitido in rol_permisos[modulo].items():
          if permitido:
              permisos_modulo[accion] = True\<close>
\<close>

definition modulos :: "string list" where
  "modulos =
     [''usuarios'', ''socios'', ''parcelas'', ''cultivos'',
      ''ciclos_cultivo'', ''cosechas'', ''tratamientos'',
      ''analisis_suelo'', ''transferencias'', ''reportes'',
      ''auditoria'', ''configuracion'']"

definition todos_false :: "(string \<times> bool) list" where
  "todos_false = [(''ver'', False), (''crear'', False), (''editar'', False),
                  (''eliminar'', False), (''aprobar'', False)]"

definition todos_true :: "(string \<times> bool) list" where
  "todos_true = [(''ver'', True), (''crear'', True), (''editar'', True),
                 (''eliminar'', True), (''aprobar'', True)]"

fun consolidar_acciones :: "(string \<times> json) list \<Rightarrow> (string \<times> bool) list \<Rightarrow> (string \<times> bool) list" where
  "consolidar_acciones [] permisos_modulo = permisos_modulo"
| "consolidar_acciones ((accion, permitido) # resto) permisos_modulo =
     consolidar_acciones resto
       (if truthy permitido then AList.update accion True permisos_modulo else permisos_modulo)"

fun consolidar_roles ::
  "rol list \<Rightarrow> string \<Rightarrow> (string \<times> bool) list \<Rightarrow> error + (string \<times> bool) list" where
  "consolidar_roles [] modul permisos_modulo = Inr permisos_modulo"
| "consolidar_roles (r # rs) modul permisos_modulo =
     (case py_contains (permisos r) modul of
        Inl e \<Rightarrow> Inl e
      | Inr presente \<Rightarrow>
          if presente
          then (case py_getitem (permisos r) modul of
                  Inl e \<Rightarrow> Inl e
                | Inr entrada \<Rightarrow>
                   (case py_items entrada of
                      Inl e \<Rightarrow> Inl e
                    | Inr items \<Rightarrow>
                        consolidar_roles rs modul (consolidar_acciones items permisos_modulo)))
          else consolidar_roles rs modul permisos_modulo)"

fun consolidar_modulos ::
  "usuario \<Rightarrow> rol list \<Rightarrow> string list \<Rightarrow> (string \<times> (string \<times> bool) list) list
     \<Rightarrow> error + (string \<times> (string \<times> bool) list) list" where
  "consolidar_modulos u rs [] permisos_consolidados = Inr permisos_consolidados"
| "consolidar_modulos u rs (modul # resto) permisos_consolidados =
     (case (if is_staff u \<or> is_superuser u then Inr todos_true
            else consolidar_roles rs modul todos_false) of
        Inl e \<Rightarrow> Inl e
      | Inr permisos_modulo \<Rightarrow>
          consolidar_modulos u rs resto
            (AList.update modul permisos_modulo permisos_consolidados))"

definition permisos_usuario ::
  "db \<Rightarrow> usuario \<Rightarrow> error + (string \<times> (string \<times> bool) list) list" where
  "permisos_usuario d u = consolidar_modulos u (roles_usuario d u) modulos []"

section \<open>Vocabulary of the specification\<close>

text \<open>
  The closed action set, as the keys of the default dictionary written by the
  normalization loop.
\<close>

definition acciones :: "string list" where
  "acciones = [''ver'', ''crear'', ''editar'', ''eliminar'', ''aprobar'']"

text \<open>The value stored at cell (module, action) of a matrix, when there is one.\<close>

definition celda :: "json \<Rightarrow> string \<Rightarrow> string \<Rightarrow> json option" where
  "celda p modul accion =
     (case p of
        JObj d \<Rightarrow> (case map_of d modul of Some (JObj acts) \<Rightarrow> map_of acts accion | _ \<Rightarrow> None)
      | _ \<Rightarrow> None)"

text \<open>
  A well-formed permission matrix in the sense of the specification: a mapping from module
  names to mappings from action names to booleans. Nothing in the code enforces this shape
  on a stored value.
\<close>

definition es_mapa_de_booleanos :: "json \<Rightarrow> bool" where
  "es_mapa_de_booleanos v =
     (case v of
        JObj acts \<Rightarrow> list_all (\<lambda>(a, b). case b of JBool x \<Rightarrow> True | _ \<Rightarrow> False) acts
      | _ \<Rightarrow> False)"

definition matriz_bien_formada :: "json \<Rightarrow> bool" where
  "matriz_bien_formada p =
     (case p of JObj d \<Rightarrow> list_all (\<lambda>(k, v). es_mapa_de_booleanos v) d | _ \<Rightarrow> False)"

text \<open>
  The normalization loop on a dictionary, where neither the membership test nor the
  assignment can raise.
\<close>

fun completar :: "string list \<Rightarrow> (string \<times> json) list \<Rightarrow> (string \<times> json) list" where
  "completar [] d = d"
| "completar (m # ms) d =
     completar ms (if m \<in> set (map fst d) then d else AList.update m permisos_vacios d)"

section \<open>Example values\<close>

text \<open>A partial matrix: one module, one action.\<close>

definition solo_ver :: json where
  "solo_ver = JObj [(''usuarios'', JObj [(''ver'', JBool True)])]"

text \<open>A matrix with a key outside the closed module set.\<close>

definition matriz_modulo_ajeno :: json where
  "matriz_modulo_ajeno = JObj [(''nonexistent_module'', JObj [(''view'', JBool True)])]"

text \<open>A mapping whose leaf is a string instead of a boolean.\<close>

definition matriz_hoja_texto :: json where
  "matriz_hoja_texto = JObj [(''usuarios'', JObj [(''ver'', JStr ''si'')])]"

definition rol_con :: "json \<Rightarrow> rol" where
  "rol_con p = \<lparr>rol_id = 7, nombre = ''Rol Prueba'', descripcion = None, permisos = p,
               es_sistema = False\<rparr>"

text \<open>
  A small database in the style of the fixture of
  \<^verbatim>\<open>test_cu6_gestionar_roles_permisos.py\<close>: a system role and a custom role, an
  ordinary user holding both, a staff account made with \<^verbatim>\<open>create_user\<close> and
  \<^verbatim>\<open>is_staff = True\<close> (so not a superuser) holding no role, and a superuser that is
  not staff.
\<close>

definition rol_socio :: rol where
  "rol_socio =
     \<lparr>rol_id = 1, nombre = ''SOCIO'', descripcion = Some ''Rol para socios de la cooperativa'',
      permisos = JObj
        [(''usuarios'', JObj [(''ver'', JBool False), (''crear'', JBool False),
                              (''editar'', JBool False), (''eliminar'', JBool False),
                              (''aprobar'', JBool False)]),
         (''socios'', JObj [(''ver'', JBool True), (''crear'', JBool False),
                            (''editar'', JBool True), (''eliminar'', JBool False),
                            (''aprobar'', JBool False)])],
      es_sistema = True\<rparr>"

definition rol_personalizado :: rol where
  "rol_personalizado =
     \<lparr>rol_id = 2, nombre = ''ROL PERSONALIZADO'',
      descripcion = Some ''Rol personalizado para pruebas'',
      permisos = JObj
        [(''usuarios'', JObj [(''ver'', JBool True), (''crear'', JBool False),
                              (''editar'', JBool False), (''eliminar'', JBool False),
                              (''aprobar'', JBool False)])],
      es_sistema = False\<rparr>"

definition usuario1 :: usuario where
  "usuario1 = \<lparr>usuario_id = 1, is_staff = False, is_superuser = False\<rparr>"

definition admin_user :: usuario where
  "admin_user = \<lparr>usuario_id = 2, is_staff = True, is_superuser = False\<rparr>"

definition superusuario :: usuario where
  "superusuario = \<lparr>usuario_id = 3, is_staff = False, is_superuser = True\<rparr>"

definition db_ejemplo :: db where
  "db_ejemplo =
     \<lparr>usuarios = [usuario1, admin_user, superusuario],
      roles = [rol_socio, rol_personalizado],
      usuario_roles = [\<lparr>ur_id = 1, ur_usuario = 1, ur_rol = 1\<rparr>,
                       \<lparr>ur_id = 2, ur_usuario = 1, ur_rol = 2\<rparr>],
      bitacora = []\<rparr>"

definition datos_hoja_texto :: rol_data where
  "datos_hoja_texto =
     \<lparr>d_nombre = Some ''Rol Prueba'', d_descripcion = None,
      d_permisos = Some matriz_hoja_texto, d_es_sistema = None, d_otros = []\<rparr>"

text \<open>A request whose only key is a name that differs from \<^verbatim>\<open>SOCIO\<close> in letter case.\<close>

definition datos_socio :: rol_data where
  "datos_socio =
     \<lparr>d_nombre = Some ''Socio'', d_descripcion = None, d_permisos = None,
      d_es_sistema = None, d_otros = []\<rparr>"

section \<open>Normalization (claims C3 and C9)\<close>

lemma loop_completar: "validar_estructura_loop ms (JObj d) = Inr (JObj (completar ms d))"
  by (induction ms arbitrary: d) auto

lemma in_keys_iff: "k \<in> set (map fst d) \<longleftrightarrow> map_of d k \<noteq> None"
  using map_of_eq_None_iff [of d k] by auto

lemma map_of_completar:
  "map_of (completar ms d) k =
     (if k \<in> set ms \<and> map_of d k = None then Some permisos_vacios else map_of d k)"
proof (induction ms arbitrary: d)
  case Nil
  then show ?case by simp
next
  case (Cons m ms)
  show ?case
  proof (cases "m \<in> set (map fst d)")
    case True
    then have "map_of d m \<noteq> None" using in_keys_iff [of m d] by blast
    with True Cons.IH [of d] show ?thesis by auto
  next
    case False
    then have "map_of d m = None" using in_keys_iff [of m d] by blast
    with False Cons.IH [of "AList.update m permisos_vacios d"] show ?thesis
      by (auto simp: update_conv')
  qed
qed

lemma completar_fixed: "set ms \<subseteq> set (map fst d) \<Longrightarrow> completar ms d = d"
  by (induction ms) auto

lemma keys_completar: "set ms \<subseteq> set (map fst (completar ms d))"
proof
  fix k assume "k \<in> set ms"
  then have "map_of (completar ms d) k \<noteq> None"
    by (simp add: map_of_completar)
  then show "k \<in> set (map fst (completar ms d))"
    using in_keys_iff [of k "completar ms d"] by blast
qed

lemma completar_idem: "completar ms (completar ms d) = completar ms d"
  by (rule completar_fixed) (rule keys_completar)

lemma update_new: "k \<notin> set (map fst d) \<Longrightarrow> AList.update k v d = d @ [(k, v)]"
  by (induction d) auto

lemma completar_append:
  "\<exists>added. completar ms d = d @ added \<and>
     (\<forall>(k, v) \<in> set added. k \<in> set ms \<and> k \<notin> set (map fst d) \<and> v = permisos_vacios)"
proof (induction ms arbitrary: d)
  case Nil
  then show ?case by simp
next
  case (Cons m ms)
  show ?case
  proof (cases "m \<in> set (map fst d)")
    case True
    from Cons.IH [of d] obtain added where
      "completar ms d = d @ added"
      "\<forall>(k, v) \<in> set added. k \<in> set ms \<and> k \<notin> set (map fst d) \<and> v = permisos_vacios"
      by blast
    with True show ?thesis by auto
  next
    case False
    let ?d = "d @ [(m, permisos_vacios)]"
    from Cons.IH [of ?d] obtain added where
      a: "completar ms ?d = ?d @ added"
      and b: "\<forall>(k, v) \<in> set added. k \<in> set ms \<and> k \<notin> set (map fst ?d) \<and> v = permisos_vacios"
      by blast
    have "completar (m # ms) d = d @ ((m, permisos_vacios) # added)"
      using False a by (simp add: update_new)
    moreover have "\<forall>(k, v) \<in> set ((m, permisos_vacios) # added).
        k \<in> set (m # ms) \<and> k \<notin> set (map fst d) \<and> v = permisos_vacios"
      using False b by auto
    ultimately show ?thesis by blast
  qed
qed

lemma validar_estructura_obj:
  "validar_estructura_permisos (JObj d) = Inr (JObj (completar permisos_requeridos d))"
  by (simp add: validar_estructura_permisos_def loop_completar)

lemma modulos_requeridos_eq: "modulos_requeridos = permisos_requeridos"
  by (simp add: modulos_requeridos_def permisos_requeridos_def)

lemma validate_permisos_obj:
  "validate_permisos (JObj d) = Inr (JObj (completar permisos_requeridos d))"
  by (simp add: validate_permisos_def loop_completar modulos_requeridos_eq)

lemma celda_permisos_vacios:
  "a \<in> set acciones \<Longrightarrow> map_of d m = Some permisos_vacios \<Longrightarrow>
     celda (JObj d) m a = Some (JBool False)"
  by (auto simp: acciones_def celda_def permisos_vacios_def)

lemma tiene_permiso_obj:
  "permisos r = JObj d \<Longrightarrow>
     tiene_permiso r m a =
       (case map_of d m of None \<Rightarrow> Inr (JBool False) | Some v \<Rightarrow> py_get v a (JBool False))"
proof (cases "map_of d m")
  case None
  assume p: "permisos r = JObj d"
  from None have "m \<notin> set (map fst d)" using in_keys_iff [of m d] by blast
  with p None show ?thesis by (simp add: tiene_permiso_def)
next
  case (Some v)
  assume p: "permisos r = JObj d"
  from Some have k: "m \<in> set (map fst d)" using in_keys_iff [of m d] by auto
  then have "d \<noteq> []" by auto
  with p Some k show ?thesis by (simp add: tiene_permiso_def)
qed

text \<open>
  Claim C3, as stated: after normalization every module of the closed set carries every
  action of the closed action set with a boolean value. The code does not do this for a
  module that the input already has: on \<^verbatim>\<open>{'usuarios': {'ver': True}}\<close> both
  \<^verbatim>\<open>Rol._validar_estructura_permisos\<close> and \<^verbatim>\<open>RolSerializer.validate_permisos\<close>
  return a matrix whose module \<^verbatim>\<open>usuarios\<close> has no cell for \<^verbatim>\<open>crear\<close>.
\<close>

theorem normalizacion_acciones_counterexample:
  "''usuarios'' \<in> set permisos_requeridos \<and> ''crear'' \<in> set acciones \<and>
   \<not> isl (validar_estructura_permisos solo_ver) \<and>
   celda (projr (validar_estructura_permisos solo_ver)) ''usuarios'' ''crear'' = None \<and>
   \<not> isl (validate_permisos solo_ver) \<and>
   celda (projr (validate_permisos solo_ver)) ''usuarios'' ''crear'' = None"
  by (simp add: solo_ver_def validar_estructura_obj validate_permisos_obj celda_def
        map_of_completar permisos_requeridos_def acciones_def)

text \<open>
  Claim C3, amended: for every mapping given as input (the empty one included), both
  normalization functions succeed with the same mapping \<open>d'\<close>, in which every module of
  the closed set is a key; a module omitted from the input gets every action of the closed
  action set with the value false; a module present in the input keeps the entry it had,
  so an action omitted inside it stays absent from the output, and reads as false only
  through the default of \<^verbatim>\<open>Rol.tiene_permiso\<close>.
\<close>

theorem normalizacion_rellena_modulos:
  "\<exists>d'. validar_estructura_permisos (JObj d) = Inr (JObj d') \<and>
        validate_permisos (JObj d) = Inr (JObj d') \<and>
        (\<forall>m \<in> set permisos_requeridos. m \<in> set (map fst d')) \<and>
        (\<forall>m \<in> set permisos_requeridos. map_of d m = None \<longrightarrow>
           (\<forall>a \<in> set acciones. celda (JObj d') m a = Some (JBool False))) \<and>
        (\<forall>m v. map_of d m = Some v \<longrightarrow> map_of d' m = Some v) \<and>
        (\<forall>m acts a. map_of d m = Some (JObj acts) \<longrightarrow> map_of acts a = None \<longrightarrow>
           celda (JObj d') m a = None \<and>
           tiene_permiso (r\<lparr>permisos := JObj d'\<rparr>) m a = Inr (JBool False))"
proof -
  let ?d = "completar permisos_requeridos d"
  have keys: "\<forall>m \<in> set permisos_requeridos. m \<in> set (map fst ?d)"
    using keys_completar [of permisos_requeridos d] by blast
  have filled: "\<forall>m \<in> set permisos_requeridos. map_of d m = None \<longrightarrow>
      (\<forall>a \<in> set acciones. celda (JObj ?d) m a = Some (JBool False))"
    by (simp add: celda_permisos_vacios map_of_completar)
  have kept: "\<forall>m v. map_of d m = Some v \<longrightarrow> map_of ?d m = Some v"
    by (simp add: map_of_completar)
  have absent: "\<forall>m acts a. map_of d m = Some (JObj acts) \<longrightarrow> map_of acts a = None \<longrightarrow>
      celda (JObj ?d) m a = None \<and>
      tiene_permiso (r\<lparr>permisos := JObj ?d\<rparr>) m a = Inr (JBool False)"
  proof (intro allI impI)
    fix m acts a
    assume m: "map_of d m = Some (JObj acts)" and a: "map_of acts a = None"
    from m have "map_of ?d m = Some (JObj acts)" by (simp add: map_of_completar)
    with a show "celda (JObj ?d) m a = None \<and>
        tiene_permiso (r\<lparr>permisos := JObj ?d\<rparr>) m a = Inr (JBool False)"
      by (simp add: celda_def tiene_permiso_obj [of _ ?d])
  qed
  from keys filled kept absent show ?thesis
    using validar_estructura_obj [of d] validate_permisos_obj [of d] by blast
qed

theorem normalizacion_rellena_modulos_witness:
  "celda (projr (validar_estructura_permisos solo_ver)) ''socios'' ''crear'' = Some (JBool False) \<and>
   celda (projr (validate_permisos solo_ver)) ''usuarios'' ''ver'' = Some (JBool True) \<and>
   celda (projr (validate_permisos solo_ver)) ''usuarios'' ''crear'' = None"
proof -
  let ?d = "[(''usuarios'', JObj [(''ver'', JBool True)])]"
  from normalizacion_rellena_modulos
         [of ?d "\<lparr>rol_id = 1, nombre = ''Rol'', descripcion = None, permisos = JNull,
                 es_sistema = False\<rparr>"]
  obtain d' where v: "validar_estructura_permisos (JObj ?d) = Inr (JObj d')"
    and s: "validate_permisos (JObj ?d) = Inr (JObj d')"
    and filled: "\<forall>m \<in> set permisos_requeridos. map_of ?d m = None \<longrightarrow>
           (\<forall>a \<in> set acciones. celda (JObj d') m a = Some (JBool False))"
    and kept: "\<forall>m v. map_of ?d m = Some v \<longrightarrow> map_of d' m = Some v"
    and absent: "\<forall>m acts a. map_of ?d m = Some (JObj acts) \<longrightarrow> map_of acts a = None \<longrightarrow>
           celda (JObj d') m a = None"
    by blast
  have "''socios'' \<in> set permisos_requeridos" and "''crear'' \<in> set acciones"
    by (simp_all add: permisos_requeridos_def acciones_def)
  with filled have 1: "celda (JObj d') ''socios'' ''crear'' = Some (JBool False)" by simp
  from kept have "map_of d' ''usuarios'' = Some (JObj [(''ver'', JBool True)])" by simp
  then have 2: "celda (JObj d') ''usuarios'' ''ver'' = Some (JBool True)"
    by (simp add: celda_def)
  from absent have 3: "celda (JObj d') ''usuarios'' ''crear'' = None" by simp
  from 1 2 3 v s show ?thesis by (simp add: solo_ver_def)
qed

text \<open>
  Claim C9: normalization is idempotent, it never changes an entry that the input already
  has, and what it adds are only missing modules with the all-false dictionary. For a
  mapping \<open>d\<close> the function returns a mapping \<open>d'\<close> that it maps to itself, that agrees
  with \<open>d\<close> on every key of \<open>d\<close>, and that is \<open>d\<close> followed by all-false entries for
  modules of the closed set that \<open>d\<close> lacks. For any JSON value at all, a result of the
  function is a fixed point of the function.
\<close>

theorem normalizacion_idempotente:
  "(\<exists>d'. validar_estructura_permisos (JObj d) = Inr (JObj d') \<and>
         validar_estructura_permisos (JObj d') = Inr (JObj d') \<and>
         (\<forall>k v. map_of d k = Some v \<longrightarrow> map_of d' k = Some v) \<and>
         (\<exists>added. d' = d @ added \<and>
            (\<forall>(k, v) \<in> set added.
               k \<in> set permisos_requeridos \<and> k \<notin> set (map fst d) \<and> v = permisos_vacios))) \<and>
   (\<forall>p'. validar_estructura_permisos p = Inr p' \<longrightarrow> validar_estructura_permisos p' = Inr p')"
proof
  let ?d = "completar permisos_requeridos d"
  have "validar_estructura_permisos (JObj ?d) = Inr (JObj ?d)"
    by (simp add: validar_estructura_obj completar_idem)
  moreover have "\<forall>k v. map_of d k = Some v \<longrightarrow> map_of ?d k = Some v"
    by (simp add: map_of_completar)
  ultimately show "\<exists>d'. validar_estructura_permisos (JObj d) = Inr (JObj d') \<and>
         validar_estructura_permisos (JObj d') = Inr (JObj d') \<and>
         (\<forall>k v. map_of d k = Some v \<longrightarrow> map_of d' k = Some v) \<and>
         (\<exists>added. d' = d @ added \<and>
            (\<forall>(k, v) \<in> set added.
               k \<in> set permisos_requeridos \<and> k \<notin> set (map fst d) \<and> v = permisos_vacios))"
    using validar_estructura_obj [of d] completar_append [of permisos_requeridos d] by blast
next
  show "\<forall>p'. validar_estructura_permisos p = Inr p' \<longrightarrow> validar_estructura_permisos p' = Inr p'"
  proof (intro allI impI)
    fix p' assume r: "validar_estructura_permisos p = Inr p'"
    show "validar_estructura_permisos p' = Inr p'"
    proof (cases "\<exists>d0. p = JObj d0")
      case True
      then obtain d0 where "p = JObj d0" by blast
      with r have "p' = JObj (completar permisos_requeridos d0)"
        by (simp add: validar_estructura_obj)
      then show ?thesis by (simp add: validar_estructura_obj completar_idem)
    next
      case False
      have same: "\<And>ms q. validar_estructura_loop ms p = Inr q \<Longrightarrow> q = p"
      proof -
        fix ms q show "validar_estructura_loop ms p = Inr q \<Longrightarrow> q = p"
          using False
          by (induction ms) (cases p; auto split: sum.splits if_splits)+
      qed
      from r have "p' = p" using same [of permisos_requeridos p']
        by (simp add: validar_estructura_permisos_def)
      with r show ?thesis by simp
    qed
  qed
qed

theorem normalizacion_idempotente_witness:
  "\<not> isl (validar_estructura_permisos solo_ver) \<and>
   validar_estructura_permisos (projr (validar_estructura_permisos solo_ver)) =
     validar_estructura_permisos solo_ver \<and>
   celda (projr (validar_estructura_permisos solo_ver)) ''usuarios'' ''ver'' = Some (JBool True)"
proof -
  let ?d = "[(''usuarios'', JObj [(''ver'', JBool True)])]"
  from normalizacion_idempotente [of ?d solo_ver]
  obtain d' where v: "validar_estructura_permisos (JObj ?d) = Inr (JObj d')"
    and i: "validar_estructura_permisos (JObj d') = Inr (JObj d')"
    and kept: "\<forall>k v. map_of ?d k = Some v \<longrightarrow> map_of d' k = Some v"
    by blast
  from kept have "map_of d' ''usuarios'' = Some (JObj [(''ver'', JBool True)])" by simp
  then have "celda (JObj d') ''usuarios'' ''ver'' = Some (JBool True)"
    by (simp add: celda_def)
  with v i show ?thesis by (simp add: solo_ver_def)
qed

lemma tiene_permiso_bien_formada:
  assumes "matriz_bien_formada (permisos r)"
  shows "tiene_permiso r m a = Inr (JBool (celda (permisos r) m a = Some (JBool True)))"
proof -
  from assms obtain d where d: "permisos r = JObj d"
    and wf: "list_all (\<lambda>(k, v). es_mapa_de_booleanos v) d"
    by (auto simp: matriz_bien_formada_def split: json.splits)
  show ?thesis
  proof (cases "map_of d m")
    case None
    with d show ?thesis by (simp add: tiene_permiso_obj celda_def)
  next
    case (Some v)
    then have "(m, v) \<in> set d" by (rule map_of_SomeD)
    with wf have "es_mapa_de_booleanos v" by (auto simp: list_all_iff)
    then obtain acts where v: "v = JObj acts"
      and leaves: "list_all (\<lambda>(a, b). case b of JBool x \<Rightarrow> True | _ \<Rightarrow> False) acts"
      by (auto simp: es_mapa_de_booleanos_def split: json.splits)
    show ?thesis
    proof (cases "map_of acts a")
      case None
      with d Some v show ?thesis by (simp add: tiene_permiso_obj celda_def)
    next
      case (Some x)
      then have "(a, x) \<in> set acts" by (rule map_of_SomeD)
      with leaves obtain b where "x = JBool b"
        by (auto simp: list_all_iff split: json.splits)
      with d \<open>map_of d m = Some v\<close> v Some show ?thesis
        by (simp add: tiene_permiso_obj celda_def)
    qed
  qed
qed

lemma validar_permiso_loop_bien_formada:
  "\<forall>r \<in> set rs. matriz_bien_formada (permisos r) \<Longrightarrow>
     validar_permiso_loop rs m a =
       Inr (\<exists>r \<in> set rs. celda (permisos r) m a = Some (JBool True))"
  by (induction rs) (auto simp: tiene_permiso_bien_formada)

lemma consolidar_modulos_elevado:
  "is_staff u \<or> is_superuser u \<Longrightarrow>
     consolidar_modulos u rs ms acc = Inr (fold (\<lambda>m. AList.update m todos_true) ms acc)"
  by (induction ms arbitrary: acc) auto

lemma permisos_usuario_elevado:
  "is_staff u \<or> is_superuser u \<Longrightarrow>
     permisos_usuario d u = Inr (map (\<lambda>m. (m, todos_true)) modulos)"
  by (simp add: permisos_usuario_def consolidar_modulos_elevado modulos_def)

section \<open>The lookup in a stored matrix (claim C7)\<close>

text \<open>
  Claim C7, as stated: the lookup returns false whenever the module is outside the closed
  module set. \<^verbatim>\<open>Rol.tiene_permiso\<close> never consults that set: the matrix
  \<^verbatim>\<open>{'nonexistent_module': {'view': True}}\<close> is accepted and gap-filled by
  \<^verbatim>\<open>validate_permisos\<close>, and on the result the lookup at that key answers true.
\<close>

theorem tiene_permiso_modulo_ajeno_counterexample:
  "''nonexistent_module'' \<notin> set permisos_requeridos \<and>
   \<not> isl (validate_permisos matriz_modulo_ajeno) \<and>
   tiene_permiso (rol_con (projr (validate_permisos matriz_modulo_ajeno)))
     ''nonexistent_module'' ''view'' = Inr (JBool True)"
  by (simp add: matriz_modulo_ajeno_def validate_permisos_obj rol_con_def
        tiene_permiso_obj [of _ "completar permisos_requeridos
                                   [(''nonexistent_module'', JObj [(''view'', JBool True)])]"]
        map_of_completar permisos_requeridos_def)

text \<open>
  Claim C7, amended: the lookup returns false whenever the role's stored value is empty,
  whenever the module is not a key of the stored mapping, and whenever the action is not a
  key of that module's entry; the closed module set plays no part, so a key outside it is
  read like any other. On a well-formed matrix the lookup never raises and returns a
  boolean, and when every role of the user stores a well-formed matrix the authorization
  check resolves to true or false.
\<close>

theorem tiene_permiso_clave_ausente:
  "(\<not> truthy (permisos r) \<longrightarrow> tiene_permiso r modul accion = Inr (JBool False)) \<and>
   (\<forall>d. permisos r = JObj d \<longrightarrow> modul \<notin> set (map fst d) \<longrightarrow>
        tiene_permiso r modul accion = Inr (JBool False)) \<and>
   (\<forall>d acts. permisos r = JObj d \<longrightarrow> map_of d modul = Some (JObj acts) \<longrightarrow>
        accion \<notin> set (map fst acts) \<longrightarrow> tiene_permiso r modul accion = Inr (JBool False)) \<and>
   (matriz_bien_formada (permisos r) \<longrightarrow>
        (\<exists>b. tiene_permiso r modul accion = Inr (JBool b))) \<and>
   ((\<forall>r' \<in> set (roles_usuario d0 u). matriz_bien_formada (permisos r')) \<longrightarrow>
        (\<exists>b. validar_permiso_usuario d0 u modul accion = Inr b))"
proof (intro conjI allI impI)
  assume "\<not> truthy (permisos r)"
  then show "tiene_permiso r modul accion = Inr (JBool False)"
    by (simp add: tiene_permiso_def)
next
  fix d assume "permisos r = JObj d" and "modul \<notin> set (map fst d)"
  then show "tiene_permiso r modul accion = Inr (JBool False)"
    using in_keys_iff [of modul d] by (simp add: tiene_permiso_obj)
next
  fix d acts
  assume "permisos r = JObj d" and "map_of d modul = Some (JObj acts)"
    and "accion \<notin> set (map fst acts)"
  then show "tiene_permiso r modul accion = Inr (JBool False)"
    using in_keys_iff [of accion acts] by (simp add: tiene_permiso_obj)
next
  assume "matriz_bien_formada (permisos r)"
  then show "\<exists>b. tiene_permiso r modul accion = Inr (JBool b)"
    by (simp add: tiene_permiso_bien_formada)
next
  assume "\<forall>r' \<in> set (roles_usuario d0 u). matriz_bien_formada (permisos r')"
  then show "\<exists>b. validar_permiso_usuario d0 u modul accion = Inr b"
    by (auto simp: validar_permiso_usuario_def validar_permiso_loop_bien_formada)
qed

theorem tiene_permiso_clave_ausente_witness:
  "tiene_permiso rol_socio ''parcelas'' ''ver'' = Inr (JBool False) \<and>
   tiene_permiso rol_socio ''socios'' ''exportar'' = Inr (JBool False) \<and>
   (\<exists>b. tiene_permiso rol_socio ''socios'' ''ver'' = Inr (JBool b)) \<and>
   (\<exists>b. validar_permiso_usuario db_ejemplo usuario1 ''socios'' ''ver'' = Inr b)"
proof -
  have wf1: "matriz_bien_formada (permisos rol_socio)"
    by (simp add: rol_socio_def matriz_bien_formada_def es_mapa_de_booleanos_def)
  have wf2: "matriz_bien_formada (permisos rol_personalizado)"
    by (simp add: rol_personalizado_def matriz_bien_formada_def es_mapa_de_booleanos_def)
  have rs: "roles_usuario db_ejemplo usuario1 = [rol_socio, rol_personalizado]"
    by (simp add: roles_usuario_def db_ejemplo_def usuario1_def rol_socio_def
          rol_personalizado_def)
  from wf1 wf2 rs
  have wf: "\<forall>r' \<in> set (roles_usuario db_ejemplo usuario1). matriz_bien_formada (permisos r')"
    by simp
  note t = tiene_permiso_clave_ausente
  from t [of rol_socio "''parcelas''" "''ver''" db_ejemplo usuario1]
  have 1: "tiene_permiso rol_socio ''parcelas'' ''ver'' = Inr (JBool False)"
    by (simp add: rol_socio_def)
  from t [of rol_socio "''socios''" "''exportar''" db_ejemplo usuario1]
  have 2: "tiene_permiso rol_socio ''socios'' ''exportar'' = Inr (JBool False)"
    by (simp add: rol_socio_def)
  from t [of rol_socio "''socios''" "''ver''" db_ejemplo usuario1] wf1 wf
  have 3: "(\<exists>b. tiene_permiso rol_socio ''socios'' ''ver'' = Inr (JBool b)) \<and>
           (\<exists>b. validar_permiso_usuario db_ejemplo usuario1 ''socios'' ''ver'' = Inr b)"
    by blast
  from 1 2 3 show ?thesis by blast
qed

section \<open>The authorization check (claims C1, C2 and C10)\<close>

lemma roles_usuario1: "roles_usuario db_ejemplo usuario1 = [rol_socio, rol_personalizado]"
  by (simp add: roles_usuario_def db_ejemplo_def usuario1_def rol_socio_def
        rol_personalizado_def)

lemma roles_admin_user: "roles_usuario db_ejemplo admin_user = []"
  by (simp add: roles_usuario_def db_ejemplo_def admin_user_def)

lemma roles_superusuario: "roles_usuario db_ejemplo superusuario = []"
  by (simp add: roles_usuario_def db_ejemplo_def superusuario_def)

lemma ejemplos_bien_formados:
  "matriz_bien_formada (permisos rol_socio)" "matriz_bien_formada (permisos rol_personalizado)"
  by (simp_all add: rol_socio_def rol_personalizado_def matriz_bien_formada_def
        es_mapa_de_booleanos_def)

text \<open>
  Claim C1, as stated: with the superuser flag false the check is true exactly when some
  assigned role grants the cell, and false for a principal without roles. The view tests
  \<^verbatim>\<open>usuario.is_staff or usuario.is_superuser\<close>: the staff account of the example is not
  a superuser and holds no role, and the check answers true.
\<close>

theorem validar_permiso_staff_counterexample:
  "\<not> is_superuser admin_user \<and> roles_usuario db_ejemplo admin_user = [] \<and>
   validar_permiso_usuario db_ejemplo admin_user ''usuarios'' ''eliminar'' = Inr True"
  by (simp add: roles_admin_user validar_permiso_usuario_def) (simp add: admin_user_def)

text \<open>
  Claim C1, amended: for every principal whose \<^verbatim>\<open>is_superuser\<close> and \<^verbatim>\<open>is_staff\<close> flags
  are both false and whose assigned roles store well-formed matrices, and for every module
  and action, the check returns true if and only if at least one assigned role has the
  boolean true at cell (module, action); in particular a principal with no assigned role
  gets false for every pair.
\<close>

theorem validar_permiso_or_de_roles:
  assumes "\<not> is_superuser u" and "\<not> is_staff u"
    and "\<forall>r \<in> set (roles_usuario d u). matriz_bien_formada (permisos r)"
  shows "validar_permiso_usuario d u modul accion =
           Inr (\<exists>r \<in> set (roles_usuario d u). celda (permisos r) modul accion = Some (JBool True)) \<and>
         (roles_usuario d u = [] \<longrightarrow> validar_permiso_usuario d u modul accion = Inr False)"
  using assms
  by (simp add: validar_permiso_usuario_def validar_permiso_loop_bien_formada)

theorem validar_permiso_or_de_roles_witness:
  "validar_permiso_usuario db_ejemplo usuario1 ''usuarios'' ''ver'' = Inr True \<and>
   validar_permiso_usuario db_ejemplo usuario1 ''usuarios'' ''crear'' = Inr False \<and>
   celda (permisos rol_socio) ''usuarios'' ''ver'' = Some (JBool False) \<and>
   celda (permisos rol_personalizado) ''usuarios'' ''ver'' = Some (JBool True)"
proof -
  have f: "\<not> is_superuser usuario1" "\<not> is_staff usuario1"
    by (simp_all add: usuario1_def)
  have wf: "\<forall>r \<in> set (roles_usuario db_ejemplo usuario1). matriz_bien_formada (permisos r)"
    by (simp add: roles_usuario1 ejemplos_bien_formados)
  have c: "celda (permisos rol_socio) ''usuarios'' ''ver'' = Some (JBool False)"
    "celda (permisos rol_personalizado) ''usuarios'' ''ver'' = Some (JBool True)"
    "celda (permisos rol_socio) ''usuarios'' ''crear'' = Some (JBool False)"
    "celda (permisos rol_personalizado) ''usuarios'' ''crear'' = Some (JBool False)"
    by (simp_all add: celda_def rol_socio_def rol_personalizado_def)
  from validar_permiso_or_de_roles [OF f wf, of "''usuarios''" "''ver''"] c
  have 1: "validar_permiso_usuario db_ejemplo usuario1 ''usuarios'' ''ver'' = Inr True"
    by (simp add: roles_usuario1)
  from validar_permiso_or_de_roles [OF f wf, of "''usuarios''" "''crear''"] c
  have 2: "validar_permiso_usuario db_ejemplo usuario1 ''usuarios'' ''crear'' = Inr False"
    by (simp add: roles_usuario1)
  from 1 2 c show ?thesis by simp
qed

text \<open>
  Claim C2: for every principal whose \<^verbatim>\<open>is_superuser\<close> flag is true the check returns
  true for every module and action, whatever roles are assigned and whatever those roles
  store (no matrix is read, so not even a malformed one can make the check fail); the
  consolidated report gives the all-true dictionary for every module of its list.
\<close>

theorem superusuario_todo_permitido:
  "is_superuser u \<Longrightarrow>
     validar_permiso_usuario d u modul accion = Inr True \<and>
     permisos_usuario d u = Inr (map (\<lambda>m. (m, todos_true)) modulos)"
  by (simp add: validar_permiso_usuario_def permisos_usuario_elevado)

theorem superusuario_todo_permitido_witness:
  "is_superuser superusuario \<and> \<not> is_staff superusuario \<and>
   roles_usuario db_ejemplo superusuario = [] \<and>
   validar_permiso_usuario db_ejemplo superusuario ''auditoria'' ''eliminar'' = Inr True \<and>
   permisos_usuario db_ejemplo superusuario = Inr (map (\<lambda>m. (m, todos_true)) modulos)"
proof -
  have s: "is_superuser superusuario" and n: "\<not> is_staff superusuario"
    by (simp_all add: superusuario_def)
  from superusuario_todo_permitido [OF s, of db_ejemplo "''auditoria''" "''eliminar''"] s n
  show ?thesis by (simp add: roles_superusuario)
qed

text \<open>
  Claim C10: a principal whose \<^verbatim>\<open>is_staff\<close> flag is true is granted every module and
  action by the check and by the consolidated report, also when \<^verbatim>\<open>is_superuser\<close> is
  false and no role is assigned: the staff flag bypasses the matrices like the superuser
  flag does.
\<close>

theorem staff_todo_permitido:
  "is_staff u \<Longrightarrow>
     validar_permiso_usuario d u modul accion = Inr True \<and>
     permisos_usuario d u = Inr (map (\<lambda>m. (m, todos_true)) modulos)"
  by (simp add: validar_permiso_usuario_def permisos_usuario_elevado)

theorem staff_todo_permitido_witness:
  "is_staff admin_user \<and> \<not> is_superuser admin_user \<and>
   roles_usuario db_ejemplo admin_user = [] \<and>
   validar_permiso_usuario db_ejemplo admin_user ''configuracion'' ''aprobar'' = Inr True \<and>
   permisos_usuario db_ejemplo admin_user = Inr (map (\<lambda>m. (m, todos_true)) modulos)"
proof -
  have s: "is_staff admin_user" and n: "\<not> is_superuser admin_user"
    by (simp_all add: admin_user_def)
  from staff_todo_permitido [OF s, of db_ejemplo "''configuracion''" "''aprobar''"] s n
  show ?thesis by (simp add: roles_admin_user)
qed

section \<open>Deleting a role (claim C5)\<close>

text \<open>
  Claim C5: for a role whose \<^verbatim>\<open>es_sistema\<close> flag is true the deletion raises the
  validation error "No se puede eliminar un rol del sistema" and the database is left as it
  was (role, assignments and audit log); for a role whose flag is false the deletion
  succeeds, the role's row is gone, and so is every assignment of that role, while the rows
  of other roles and the assignments of other roles stay.
\<close>

theorem perform_destroy_rol_sistema:
  "(es_sistema r \<longrightarrow> perform_destroy d r = (Inl (Raised (ValidationError rol_protegido)), d)) \<and>
   (\<not> es_sistema r \<longrightarrow>
      fst (perform_destroy d r) = Inr () \<and>
      roles (snd (perform_destroy d r)) = filter (\<lambda>x. rol_id x \<noteq> rol_id r) (roles d) \<and>
      usuario_roles (snd (perform_destroy d r)) =
        filter (\<lambda>ur. ur_rol ur \<noteq> rol_id r) (usuario_roles d) \<and>
      usuarios (snd (perform_destroy d r)) = usuarios d \<and>
      (\<forall>x \<in> set (roles (snd (perform_destroy d r))). rol_id x \<noteq> rol_id r) \<and>
      (\<forall>ur \<in> set (usuario_roles (snd (perform_destroy d r))). ur_rol ur \<noteq> rol_id r))"
  by (simp add: perform_destroy_def delete_rol_def registrar_def)

theorem perform_destroy_rol_sistema_witness:
  "es_sistema rol_socio \<and>
   perform_destroy db_ejemplo rol_socio =
     (Inl (Raised (ValidationError rol_protegido)), db_ejemplo) \<and>
   \<not> es_sistema rol_personalizado \<and>
   fst (perform_destroy db_ejemplo rol_personalizado) = Inr () \<and>
   roles (snd (perform_destroy db_ejemplo rol_personalizado)) = [rol_socio] \<and>
   usuario_roles (snd (perform_destroy db_ejemplo rol_personalizado)) =
     [\<lparr>ur_id = 1, ur_usuario = 1, ur_rol = 1\<rparr>]"
proof -
  have s: "es_sistema rol_socio"
    by (simp add: rol_socio_def)
  have n: "\<not> es_sistema rol_personalizado"
    by (simp add: rol_personalizado_def)
  have f1: "filter (\<lambda>x. rol_id x \<noteq> rol_id rol_personalizado) (roles db_ejemplo) = [rol_socio]"
    by code_simp
  have f2: "filter (\<lambda>ur. ur_rol ur \<noteq> rol_id rol_personalizado) (usuario_roles db_ejemplo) =
      [\<lparr>ur_id = 1, ur_usuario = 1, ur_rol = 1\<rparr>]"
    by code_simp
  from perform_destroy_rol_sistema [of rol_socio db_ejemplo] s
  have 1: "perform_destroy db_ejemplo rol_socio =
      (Inl (Raised (ValidationError rol_protegido)), db_ejemplo)"
    by blast
  from perform_destroy_rol_sistema [of rol_personalizado db_ejemplo] n
  have 2: "fst (perform_destroy db_ejemplo rol_personalizado) = Inr ()"
    and 3: "roles (snd (perform_destroy db_ejemplo rol_personalizado)) =
      filter (\<lambda>x. rol_id x \<noteq> rol_id rol_personalizado) (roles db_ejemplo)"
    and 4: "usuario_roles (snd (perform_destroy db_ejemplo rol_personalizado)) =
      filter (\<lambda>ur. ur_rol ur \<noteq> rol_id rol_personalizado) (usuario_roles db_ejemplo)"
    by blast+
  from 3 f1 have 5: "roles (snd (perform_destroy db_ejemplo rol_personalizado)) = [rol_socio]"
    by (rule trans)
  from 4 f2 have 6: "usuario_roles (snd (perform_destroy db_ejemplo rol_personalizado)) =
      [\<lparr>ur_id = 1, ur_usuario = 1, ur_rol = 1\<rparr>]"
    by (rule trans)
  from s 1 n 2 5 6 show ?thesis by blast
qed

section \<open>Revoking a role (claim C4)\<close>

text \<open>
  Claim C4: revoking a system role fails whenever it would leave the principal without a
  system role. \<^verbatim>\<open>RolViewSet.quitar_usuario\<close> counts the user's other system-role
  assignments and refuses; the function view \<^verbatim>\<open>quitar_rol_usuario\<close> counts the user's
  other assignments of any role. In the example the user holds the system role
  \<^verbatim>\<open>SOCIO\<close> and one custom role: the viewset action answers 400 and changes nothing,
  the function view answers 200 and leaves the user with the custom role only.
\<close>

theorem quitar_rol_usuario_ultimo_rol_sistema:
  "es_sistema rol_socio \<and> \<not> es_sistema rol_personalizado \<and>
   roles_usuario db_ejemplo usuario1 = [rol_socio, rol_personalizado] \<and>
   quitar_usuario db_ejemplo admin_user 1 (Some 1) =
     (Inr (Response 400 ''No se puede quitar el ultimo rol del sistema del usuario''),
      db_ejemplo) \<and>
   fst (quitar_rol_usuario db_ejemplo admin_user (Some 1) (Some 1)) =
     Inr (Response 200 ''Rol removido exitosamente'') \<and>
   usuario_roles (snd (quitar_rol_usuario db_ejemplo admin_user (Some 1) (Some 1))) =
     [\<lparr>ur_id = 2, ur_usuario = 1, ur_rol = 2\<rparr>] \<and>
   roles_usuario (snd (quitar_rol_usuario db_ejemplo admin_user (Some 1) (Some 1))) usuario1 =
     [rol_personalizado]"
  by code_simp

section \<open>Permissions received when a role is created or updated (claim C8)\<close>

lemma validate_permisos_no_objeto:
  "\<forall>dct. v \<noteq> JObj dct \<Longrightarrow> validate_permisos v = Inl (ValidationError permisos_no_objeto)"
  by (cases v) (simp_all add: validate_permisos_def)











text \<open>
  What the first serializer class would have refused and the viewset stores: a
  permissions value that is not a mapping.
\<close>

lemma create_almacena_lista:
  "validate_permisos (JArr [JStr ''usuarios'']) = Inl (ValidationError permisos_no_objeto) \<and>
   fst (create db_ejemplo (datos_hoja_texto\<lparr>d_permisos := Some (JArr [JStr ''usuarios''])\<rparr>)) =
     Inr (Response 201 ''Rol Prueba'') \<and>
   permisos (last (roles (snd (create db_ejemplo
      (datos_hoja_texto\<lparr>d_permisos := Some (JArr [JStr ''usuarios''])\<rparr>))))) =
     JArr [JStr ''usuarios'']"
  by code_simp

section \<open>Case-insensitive uniqueness of role names (claim C6)\<close>

text \<open>
  The paths that test the name with \<^verbatim>\<open>nombre__iexact\<close>: \<^verbatim>\<open>RolViewSet.duplicar\<close>,
  \<^verbatim>\<open>crear_rol_personalizado\<close> and the hook \<^verbatim>\<open>validate\<close> of the first serializer class.
  Each refuses a name that some role has up to letter case, whatever \<^verbatim>\<open>UPPER\<close> is, and
  the two views leave the database as it was.
\<close>

lemma nombre_existente_rechazado:
  assumes "n \<noteq> []" and "\<exists>r \<in> set (roles d). iexact upper (nombre r) n"
  shows "(\<forall>original. get_object d request_user pk = Some original \<longrightarrow>
            duplicar upper d request_user pk (Some n) descr =
              (Inr (Response 400 ''Ya existe un rol con este nombre''), d)) \<and>
         (is_staff request_user \<longrightarrow>
            crear_rol_personalizado upper d request_user (Some n) descr perms =
              (Inr (Response 400 ''Ya existe un rol con este nombre''), d)) \<and>
         (d_nombre data = Some n \<longrightarrow>
            validate upper d None data = Inl (ValidationError nombre_duplicado))"
  using assms
  by (simp add: duplicar_def crear_rol_personalizado_def validate_def Let_def)

text \<open>
  Claim C6: creating a role fails whenever a role with the same name up to letter case
  exists, and updating re-checks the new name. The role \<^verbatim>\<open>SOCIO\<close> exists. Through
  \<^verbatim>\<open>RolViewSet\<close> the request \<^verbatim>\<open>{'nombre': 'Socio'}\<close> creates a second role
  (status 201), and the partial update of role 2 with the same data renames it (status
  200): the serializer in use compares names exactly. On the same name
  \<^verbatim>\<open>duplicar\<close> and \<^verbatim>\<open>crear_rol_personalizado\<close> answer 400 and change nothing, and
  the hook \<^verbatim>\<open>validate\<close> of the first serializer class raises the duplicate-name error.
\<close>

theorem create_nombre_en_otra_caja:
  "rol_socio \<in> set (roles db_ejemplo) \<and> nombre rol_socio = ''SOCIO'' \<and>
   d_nombre datos_socio = Some ''Socio'' \<and>
   iexact upper_ascii (nombre rol_socio) ''Socio'' \<and>
   fst (create db_ejemplo datos_socio) = Inr (Response 201 ''Socio'') \<and>
   map nombre (roles (snd (create db_ejemplo datos_socio))) =
     [''SOCIO'', ''ROL PERSONALIZADO'', ''Socio''] \<and>
   fst (update db_ejemplo admin_user 2 True datos_socio) = Inr (Response 200 ''Socio'') \<and>
   map nombre (roles (snd (update db_ejemplo admin_user 2 True datos_socio))) =
     [''SOCIO'', ''Socio''] \<and>
   duplicar upper_ascii db_ejemplo admin_user 2 (Some ''Socio'') None =
     (Inr (Response 400 ''Ya existe un rol con este nombre''), db_ejemplo) \<and>
   crear_rol_personalizado upper_ascii db_ejemplo admin_user (Some ''Socio'') None None =
     (Inr (Response 400 ''Ya existe un rol con este nombre''), db_ejemplo) \<and>
   validate upper_ascii db_ejemplo None datos_socio = Inl (ValidationError nombre_duplicado)"
  by code_simp


end
